theory Spec2Isabelle
  imports Main "HOL-Library.Word" "HOL-Library.Signed_Division" "HOL-Library.Multiset"
begin

section \<open>Go values\<close>

text \<open>
  Go's \<open>int\<close> on the 64-bit platforms the agent is built for, and the sized integers:
  two's complement words whose \<open>+\<close> and \<open>-\<close> wrap around. Signed comparisons read the
  word with \<open>sint\<close>; comparisons of \<open>uint64\<close> are the unsigned order of the word type.
\<close>

type_synonym go_int = "64 word"
type_synonym int64 = "64 word"
type_synonym uint64 = "64 word"
type_synonym int32 = "32 word"

text \<open>Go's \<open>/\<close> on signed integers truncates towards zero.\<close>

definition go_quot :: "go_int \<Rightarrow> go_int \<Rightarrow> go_int" where
  "go_quot a b = word_of_int (sint a sdiv sint b)"

text \<open>
  An \<open>error\<close> value. \<open>Errorf msg\<close> is what \<open>fmt.Errorf\<close> makes from a format without \<open>%w\<close>,
  and what a collaborator hands back: an error known by its message only, with no type
  of its own.
\<close>

text \<open>
  Modelled from the spec: the typed "not found" error of the spec's error taxonomy is
  declared outside the sources. \<open>NotFound obj\<close> is a value of that type: an error whose
  type, and not its message, says that \<open>obj\<close> was looked up and is missing.
  \<open>IsNotFound\<close> is the test a caller makes on a returned error (\<open>None\<close> is nil) to
  recognise it.
\<close>

datatype error = Errorf string | NotFound string

fun IsNotFound :: "error option \<Rightarrow> bool" where
  "IsNotFound (Some (NotFound obj)) = True"
| "IsNotFound (Some (Errorf msg)) = False"
| "IsNotFound None = False"

text \<open>
  A call of the logging package: the level, the format string and the arguments.
  \<open>E None\<close> is a nil error printed with \<open>%v\<close>.
\<close>

datatype log_arg = S string | I int | E "error option"

datatype log_line =
    Debugf string "log_arg list"
  | Infof string "log_arg list"
  | Warn string

section \<open>pkg/aggregator: the DogStatsD topology\<close>

text \<open>The two reads of \<open>config.Datadog\<close>, by key.\<close>

record config =
  GetBool :: "string \<Rightarrow> bool"
  GetInt :: "string \<Rightarrow> go_int"

text \<open>
  \<open>getDogStatsDWorkerAndPipelineCount\<close>: the pair \<open>(dsdWorkerCount, pipelineCount)\<close> and the
  lines logged on the way.
\<close>

definition getDogStatsDWorkerAndPipelineCount ::
  "config \<Rightarrow> go_int \<Rightarrow> (go_int \<times> go_int) \<times> log_line list" where
  "getDogStatsDWorkerAndPipelineCount cfg vCPUs =
    (let autoAdjust = GetBool cfg ''dogstatsd_pipeline_autoadjust'' in
     if \<not> autoAdjust then
       (let pipelineCount = GetInt cfg ''dogstatsd_pipeline_count'';
            pipelineCount = (if sint pipelineCount \<le> 0 then 1 else pipelineCount);
            dsdWorkerCount = vCPUs - 1 - pipelineCount;
            dsdWorkerCount = (if sint dsdWorkerCount < 2 then 2 else dsdWorkerCount)
        in ((dsdWorkerCount, pipelineCount), []))
     else
       (let dsdWorkerCount = go_quot vCPUs 2;
            dsdWorkerCount = (if sint dsdWorkerCount < 2 then 2 else dsdWorkerCount);
            pipelineCount = dsdWorkerCount - 1;
            pipelineCount = (if sint pipelineCount \<le> 0 then 1 else pipelineCount)
        in ((dsdWorkerCount, pipelineCount),
            (if 1 < sint (GetInt cfg ''dogstatsd_pipeline_count'')
             then [Warn ''DogStatsD pipeline count value ignored since 'dogstatsd_pipeline_autoadjust' is enabled.'']
             else []))))"

section \<open>pkg/aggregator: iterable sinks\<close>

text \<open>The two capability methods of the serializer that \<open>createIterableMetrics\<close> calls.\<close>

record MetricSerializer =
  AreSeriesEnabled :: bool
  AreSketchesEnabled :: bool

record FlushAndSerializeInParallel =
  BufferSize :: go_int
  ChannelSize :: go_int

text \<open>
  What a sink's callback does with one flushed item: a debug line carrying the item
  (for the serverless line, the item stands for its \<open>String()\<close>), and the update of the
  tagset telemetry.
\<close>

datatype 'a callback_effect =
    CallbackDebugf string 'a
  | CallbackDebugfServerless string 'a
  | UpdateHugeTelemetry 'a

text \<open>
  Modelled from the spec: \<open>metrics.NewIterableSeries\<close> and \<open>metrics.NewIterableSketches\<close>
  (package \<open>pkg/metrics\<close>) are not among the sources. A sink is the bounded streaming
  hand-off channel of the spec: the constructor stores the callback and the two sizes it
  is given, in the order it is given them, and returns a fresh sink, never nil.
\<close>

record 'a IterableSink =
  callback :: "'a \<Rightarrow> 'a callback_effect list"
  size1 :: go_int
  size2 :: go_int

definition NewIterableSeries ::
  "('a \<Rightarrow> 'a callback_effect list) \<Rightarrow> go_int \<Rightarrow> go_int \<Rightarrow> 'a IterableSink" where
  "NewIterableSeries cb n1 n2 = \<lparr>callback = cb, size1 = n1, size2 = n2\<rparr>"

definition NewIterableSketches ::
  "('a \<Rightarrow> 'a callback_effect list) \<Rightarrow> go_int \<Rightarrow> go_int \<Rightarrow> 'a IterableSink" where
  "NewIterableSketches cb n1 n2 = \<lparr>callback = cb, size1 = n1, size2 = n2\<rparr>"

datatype constructor_call = CalledNewIterableSeries | CalledNewIterableSketches

text \<open>
  \<open>createIterableMetrics\<close>: the two returned pointers (\<open>None\<close> is nil) and the constructors
  it called, in order.
\<close>

definition createIterableMetrics ::
  "FlushAndSerializeInParallel \<Rightarrow> MetricSerializer \<Rightarrow> bool \<Rightarrow> bool \<Rightarrow>
     ('se IterableSink option \<times> 'sk IterableSink option) \<times> constructor_call list" where
  "createIterableMetrics flushAndSerializeInParallel serializer logPayloads isServerless =
    (let (series, calls1) =
           (if AreSeriesEnabled serializer then
              (Some (NewIterableSeries
                 (\<lambda>se. (if logPayloads then [CallbackDebugf ''Flushing serie: %s'' se] else [])
                        @ [UpdateHugeTelemetry se])
                 (BufferSize flushAndSerializeInParallel)
                 (ChannelSize flushAndSerializeInParallel)),
               [CalledNewIterableSeries])
            else (None, []));
         (sketches, calls2) =
           (if AreSketchesEnabled serializer then
              (Some (NewIterableSketches
                 (\<lambda>sketch. (if logPayloads then [CallbackDebugf ''Flushing Sketches: %v'' sketch] else [])
                        @ (if isServerless
                           then [CallbackDebugfServerless ''Sending sketches payload : %s'' sketch]
                           else [])
                        @ [UpdateHugeTelemetry sketch])
                 (BufferSize flushAndSerializeInParallel)
                 (ChannelSize flushAndSerializeInParallel)),
               [CalledNewIterableSketches])
            else (None, []))
     in ((series, sketches), calls1 @ calls2))"

section \<open>pkg/process/checks: the pod check without kubelet or orchestrator\<close>

record 'sys PodCheck =
  sysInfo :: "'sys option"

definition Init :: "'sys PodCheck \<Rightarrow> 'cfg \<Rightarrow> 'sys option \<Rightarrow> 'sys PodCheck" where
  "Init c cfg info = c\<lparr>sysInfo := info\<rparr>"

text \<open>
  \<open>PodCheck.Run\<close>: the slice of message bodies (\<open>None\<close> is the nil slice) and the error.
\<close>

definition Run :: "'sys PodCheck \<Rightarrow> 'cfg \<Rightarrow> int32 \<Rightarrow> 'msg list option \<times> error option" where
  "Run c cfg groupID = (None, Some (Errorf ''Not implemented''))"

section \<open>The docker API types the Windows provider reads\<close>

text \<open>
  The types of \<open>github.com/docker/docker/api/types\<close>, with the fields the provider reads.
  \<open>State\<close> and \<open>HostConfig\<close> are pointers that the docker client fills on every
  successful inspect: the records carry them as present.
\<close>

record Container =
  ID :: string

record ContainerState =
  StartedAt :: string
  Pid :: go_int

record HostConfig =
  NanoCPUs :: int64
  CPUPercent :: int64
  CPUCount :: int64
  Memory :: int64

record ContainerJSON =
  JSON_ID :: string
  State :: ContainerState
  HostConfig :: HostConfig

record CPUUsage =
  UsageInKernelmode :: uint64
  TotalUsage :: uint64

record CPUStats =
  CPUUsage :: CPUUsage

record MemoryStats =
  Stats_PrivateWorkingSet :: uint64
  Commit :: uint64
  CommitPeak :: uint64

record StorageStats =
  ReadSizeBytes :: uint64
  WriteSizeBytes :: uint64

record NetworkStats =
  RxBytes :: uint64
  TxBytes :: uint64
  RxPackets :: uint64
  TxPackets :: uint64

text \<open>
  \<open>Networks\<close> is a Go map from interface name to counters. Its entries are listed in the
  order in which a \<open>range\<close> over the map visits them, which Go leaves unspecified.
\<close>

record StatsJSON =
  CPUStats :: CPUStats
  MemoryStats :: MemoryStats
  StorageStats :: StorageStats
  Networks :: "(string \<times> NetworkStats) list"

section \<open>pkg/util/containers/metrics: what the provider fills\<close>

text \<open>
  The \<open>float64\<close> fields have the type \<open>'f\<close>: the conversions and the arithmetic on
  \<open>float64\<close> are operations of the host (below), not evaluated here.
\<close>

record 'f ContainerCPUStats =
  User :: 'f
  System :: 'f
  UsageTotal :: 'f

record ContainerMemStats =
  RSS :: uint64
  PrivateWorkingSet :: uint64
  CommitBytes :: uint64
  CommitPeakBytes :: uint64

record ContainerIOStats =
  ReadBytes :: uint64
  WriteBytes :: uint64

record 'f ContainerMetrics =
  CPU :: "'f ContainerCPUStats option"
  Memory_stats :: "ContainerMemStats option"
  IO :: "ContainerIOStats option"

record 'f ContainerLimits =
  CPULimit :: 'f
  MemLimit :: uint64

record InterfaceNetStats =
  NetworkName :: string
  BytesRcvd :: uint64
  BytesSent :: uint64
  PacketsRcvd :: uint64
  PacketsSent :: uint64

section \<open>pkg/util/containers/providers/windows: the provider\<close>

record 'f containerBundle =
  metrics :: "'f ContainerMetrics option"
  networkMetrics :: "(string \<times> NetworkStats) list"
  limits :: "'f ContainerLimits option"
  startTime :: int64

text \<open>
  The provider: the published map and the pointer to the agent's container id. The two
  locks order concurrent callers and hold no data; the model runs one call at a time.
\<close>

record 'f provider =
  containers :: "string \<rightharpoonup> 'f containerBundle"
  agentCID :: "string option"

text \<open>The three calls \<open>Prefetch\<close> makes on the docker client, as Go value and error pairs.\<close>

record DockerUtil =
  RawContainerList :: "error + Container list"
  Inspect :: "string \<Rightarrow> error + ContainerJSON"
  GetContainerStats :: "string \<Rightarrow> StatsJSON option \<times> error option"

text \<open>
  What the provider asks of its surroundings: the docker client, the two process ids,
  \<open>sysinfo.NumCPU\<close>, \<open>time.Parse(time.RFC3339, s)\<close> followed by \<open>Unix()\<close>, the
  \<open>float64\<close> operations, the order in which the Go scheduler lets the goroutines of
  \<open>Prefetch\<close> take their steps, and whether a \<open>range\<close> loop has one variable for each
  iteration (Go 1.22 and later) or one for the whole loop.
\<close>

record 'f host =
  GetDockerUtil :: "error + DockerUtil"
  Getpid :: go_int
  Getppid :: go_int
  NumCPU :: go_int
  time_Parse_Unix :: "string \<Rightarrow> error + int64"
  float64 :: "int \<Rightarrow> 'f"
  fmul :: "'f \<Rightarrow> 'f \<Rightarrow> 'f"
  fdiv :: "'f \<Rightarrow> 'f \<Rightarrow> 'f"
  schedule :: "nat list"
  loopvar_per_iteration :: bool

text \<open>The zero value of \<open>containerBundle\<close>.\<close>

definition zero_containerBundle :: "'f containerBundle" where
  "zero_containerBundle = \<lparr>metrics = None, networkMetrics = [], limits = None, startTime = 0\<rparr>"

definition fillContainerDetails ::
  "'f host \<Rightarrow> ContainerJSON \<Rightarrow> 'f containerBundle \<Rightarrow> 'f containerBundle \<times> log_line list" where
  "fillContainerDetails h cjson containerBundle =
    (let (containerBundle, logs) =
           (case time_Parse_Unix h (StartedAt (State cjson)) of
              Inr t \<Rightarrow> (containerBundle\<lparr>startTime := t\<rparr>, [])
            | Inl err \<Rightarrow>
                (containerBundle,
                 [Debugf ''Impossible to get start time for container %s: %v''
                    [S (JSON_ID cjson), E (Some err)]]));
         hc = HostConfig cjson;
         cpuLimit =
           (if 0 < sint (NanoCPUs hc) then
              fmul h (fdiv h (float64 h (sint (NanoCPUs hc))) (float64 h 1000000000)) (float64 h 100)
            else if 0 < sint (CPUPercent hc) then
              fmul h (float64 h (sint (CPUPercent hc))) (float64 h (sint (NumCPU h)))
            else if 0 < sint (CPUCount hc) then
              fmul h (float64 h (sint (CPUCount hc))) (float64 h 100)
            else float64 h 0)
     in (containerBundle\<lparr>limits := Some \<lparr>CPULimit = cpuLimit, MemLimit = Memory hc\<rparr>\<rparr>, logs))"

text \<open>
  \<open>fillContainerMetrics\<close>. \<open>kernel\<close>, \<open>total\<close> and \<open>user\<close> are \<open>uint64\<close>: the division
  and the comparison \<open>user < 0\<close> are the unsigned ones of the word type, the subtraction
  wraps.
\<close>

definition fillContainerMetrics ::
  "'f host \<Rightarrow> StatsJSON \<Rightarrow> 'f containerBundle \<Rightarrow> 'f containerBundle" where
  "fillContainerMetrics h stats containerBundle =
    (let kernel = UsageInKernelmode (CPUUsage (CPUStats stats)) div 100000;
         total = TotalUsage (CPUUsage (CPUStats stats)) div 100000;
         user = total - kernel;
         user = (if user < 0 then 0 else user)
     in containerBundle\<lparr>metrics := Some
          \<lparr>CPU = Some \<lparr>User = float64 h (uint user),
                        System = float64 h (uint kernel),
                        UsageTotal = float64 h (uint total)\<rparr>,
           Memory_stats = Some \<lparr>RSS = Stats_PrivateWorkingSet (MemoryStats stats),
                        PrivateWorkingSet = Stats_PrivateWorkingSet (MemoryStats stats),
                        CommitBytes = Commit (MemoryStats stats),
                        CommitPeakBytes = CommitPeak (MemoryStats stats)\<rparr>,
           IO = Some \<lparr>ReadBytes = ReadSizeBytes (StorageStats stats),
                       WriteBytes = WriteSizeBytes (StorageStats stats)\<rparr>\<rparr>\<rparr>)"

definition fillContainerNetworkMetrics ::
  "StatsJSON \<Rightarrow> 'f containerBundle \<Rightarrow> 'f containerBundle" where
  "fillContainerNetworkMetrics stats containerBundle =
     containerBundle\<lparr>networkMetrics := Networks stats\<rparr>"

subsection \<open>Prefetch\<close>

text \<open>The batch size: an eighth of the containers, or all of them when that is at most 1.\<close>

definition chunkSize_of :: "nat \<Rightarrow> nat" where
  "chunkSize_of n = (let chunkSize = n div 8 in if chunkSize \<le> 1 then n else chunkSize)"

text \<open>
  What one goroutine does, step by step: the line it logs when it starts, then one
  inspection for each container of its slice. An inspection carries, beside the
  container, the id that the goroutine's loop variable holds once its loop is over (the
  last container of the slice): \<open>mp.agentCID = &container.ID\<close> stores a pointer into the
  loop variable.
\<close>

datatype goroutine_step = Retrieving nat nat | Inspecting Container string

text \<open>
  The loop \<open>for i := 0; i < len(rawContainers); i += chunkSize\<close>, from \<open>i\<close> on: the
  goroutines it starts, in the order it starts them.
\<close>

function goroutines :: "nat \<Rightarrow> Container list \<Rightarrow> goroutine_step list list" where
  "goroutines i rawContainers =
     (if i < length rawContainers then
        (let start = i;
             end = start + chunkSize_of (length rawContainers);
             end = (if end > length rawContainers then length rawContainers else end);
             slice = take (end - start) (drop start rawContainers)
         in (Retrieving start end # map (\<lambda>container. Inspecting container (ID (last slice))) slice))
        # goroutines (i + chunkSize_of (length rawContainers)) rawContainers
      else [])"
  by pat_completeness auto
termination
proof (relation "measure (\<lambda>(i, rawContainers). length rawContainers - i)")
  show "wf (measure (\<lambda>(i, rawContainers :: Container list). length rawContainers - i))"
    by simp
next
  fix i :: nat and rawContainers :: "Container list"
  assume "i < length rawContainers"
  moreover from this have "0 < chunkSize_of (length rawContainers)"
    by (auto simp: chunkSize_of_def Let_def)
  ultimately show "((i + chunkSize_of (length rawContainers), rawContainers), (i, rawContainers))
      \<in> measure (\<lambda>(i, rawContainers). length rawContainers - i)"
    by simp
qed

declare goroutines.simps [simp del]

text \<open>
  The goroutines run concurrently. \<open>interleave sched gs\<close> is the sequence of steps under
  the schedule \<open>sched\<close>: at each turn the next number of the schedule picks, among the
  goroutines that still have a step to take, the one that takes it (the first one when
  the schedule is used up). Every schedule is admissible and runs every goroutine to its
  end.
\<close>

function interleave :: "nat list \<Rightarrow> 'a list list \<Rightarrow> 'a list" where
  "interleave sched gs =
     (let live = filter (\<lambda>g. g \<noteq> []) gs in
      if live = [] then []
      else (let k = (case sched of [] \<Rightarrow> 0 | s # _ \<Rightarrow> s mod length live);
                g = live ! k
            in hd g # interleave (tl sched) (live[k := tl g])))"
  by pat_completeness auto
termination
proof (relation "measure (\<lambda>(sched, gs). sum_list (map length gs))")
  show "wf (measure (\<lambda>(sched :: nat list, gs :: 'a list list). sum_list (map length gs)))"
    by simp
next
  fix sched :: "nat list" and gs live :: "'a list list" and k :: nat and g :: "'a list"
  assume live: "live = filter (\<lambda>g. g \<noteq> []) gs" and ne: "live \<noteq> []"
    and k: "k = (case sched of [] \<Rightarrow> 0 | s # _ \<Rightarrow> s mod length live)" and g: "g = live ! k"
  have "k < length live"
    using ne k by (cases sched) simp_all
  then have "g \<in> set live"
    using g by simp
  then have "g \<noteq> []"
    using live by simp
  have "sum_list (map length live) = sum_list (map length gs)"
    unfolding live by (induction gs) simp_all
  moreover have "sum_list (map length (live[k := tl g])) < sum_list (map length live)"
  proof -
    have "sum_list (map length (live[k := tl g]))
        = sum_list (map length live) + length (tl g) - length g"
      using \<open>k < length live\<close> g by (simp add: map_update sum_list_update)
    moreover have "length g \<le> sum_list (map length live)"
      using \<open>g \<in> set live\<close> by (simp add: member_le_sum_list)
    moreover have "0 < length g"
      using \<open>g \<noteq> []\<close> by simp
    ultimately show ?thesis by (cases g) auto
  qed
  ultimately show "((tl sched, live[k := tl g]), (sched, gs))
      \<in> measure (\<lambda>(sched, gs). sum_list (map length gs))"
    by simp
qed

declare interleave.simps [simp del]

text \<open>
  The body of the loop over one slice, for one container: the bundle it builds, whether
  it assigns \<open>mp.agentCID\<close>, and its log lines.
\<close>

definition inspectContainer ::
  "'f host \<Rightarrow> DockerUtil \<Rightarrow> Container \<Rightarrow> 'f containerBundle \<times> bool \<times> log_line list" where
  "inspectContainer h dockerUtil container =
    (let containerBundle = zero_containerBundle;
         logs1 = [Debugf ''Inspecting container %s'' [S (ID container)]];
         (containerBundle, isAgent, logs2) =
           (case Inspect dockerUtil (ID container) of
              Inr cjson \<Rightarrow>
                (let (cb, l) = fillContainerDetails h cjson containerBundle
                 in (cb, Pid (State cjson) = Getpid h \<or> Pid (State cjson) = Getppid h, l))
            | Inl err \<Rightarrow>
                (containerBundle, False,
                 [Infof ''Impossible to inspect container %s: %v'' [S (ID container), E (Some err)]]));
         (containerBundle, logs3) =
           (case GetContainerStats dockerUtil (ID container) of
              (Some stats, None) \<Rightarrow>
                (fillContainerNetworkMetrics stats (fillContainerMetrics h stats containerBundle), [])
            | (_, err) \<Rightarrow>
                (containerBundle,
                 [Infof ''Impossible to get stats for container %s: %v'' [S (ID container), E err]]))
     in (containerBundle, isAgent,
         logs1 @ logs2 @ logs3 @ [Debugf ''Done inspecting %s'' [S (ID container)]]))"

text \<open>
  What the goroutines share: the local map \<open>containers\<close> (written under its own lock),
  \<open>mp.agentCID\<close>, and the log.
\<close>

record 'f prefetch_state =
  local_containers :: "string \<rightharpoonup> 'f containerBundle"
  mp_agentCID :: "string option"
  logged :: "log_line list"

fun runStep :: "'f host \<Rightarrow> DockerUtil \<Rightarrow> goroutine_step \<Rightarrow> 'f prefetch_state \<Rightarrow> 'f prefetch_state" where
  "runStep h dockerUtil (Retrieving start end) st =
     st\<lparr>logged := logged st @
          [Debugf (''Retrieving info on containers %d -> %d'' @ [CHR 0x0A]) [I (int start), I (int end)]]\<rparr>"
| "runStep h dockerUtil (Inspecting container lastID) st =
     (let (containerBundle, isAgent, logs) = inspectContainer h dockerUtil container
      in st\<lparr>local_containers := (local_containers st)(ID container \<mapsto> containerBundle),
             mp_agentCID :=
               (if isAgent
                then Some (if loopvar_per_iteration h then ID container else lastID)
                else mp_agentCID st),
             logged := logged st @ logs\<rparr>)"

text \<open>\<open>Prefetch\<close>: the provider afterwards, the returned error (\<open>None\<close> is nil), the log.\<close>

definition Prefetch :: "'f host \<Rightarrow> 'f provider \<Rightarrow> 'f provider \<times> error option \<times> log_line list" where
  "Prefetch h mp =
    (case GetDockerUtil h of
       Inl err \<Rightarrow> (mp, Some err, [])
     | Inr dockerUtil \<Rightarrow>
        (case RawContainerList dockerUtil of
           Inl err \<Rightarrow> (mp, Some err, [])
         | Inr rawContainers \<Rightarrow>
            (let st0 = \<lparr>local_containers = Map.empty,
                        mp_agentCID = agentCID mp,
                        logged =
                          [Debugf ''Retrieved %d containers from docker'' [I (int (length rawContainers))],
                           Infof (''Fetching container info by batch of %d'' @ [CHR 0x0A])
                             [I (int (chunkSize_of (length rawContainers)))]]\<rparr>;
                 st = fold (runStep h dockerUtil)
                        (interleave (schedule h) (goroutines 0 rawContainers)) st0
             in (\<lparr>containers = local_containers st, agentCID = mp_agentCID st\<rparr>, None, logged st))))"

subsection \<open>The accessors\<close>

definition ContainerExists :: "'f provider \<Rightarrow> string \<Rightarrow> bool" where
  "ContainerExists mp containerID =
     (case containers mp containerID of None \<Rightarrow> False | Some _ \<Rightarrow> True)"

definition GetContainerStartTime :: "'f provider \<Rightarrow> string \<Rightarrow> int64 \<times> error option" where
  "GetContainerStartTime mp containerID =
     (case containers mp containerID of
        None \<Rightarrow> (0, Some (Errorf ''container not found''))
      | Some containerBundle \<Rightarrow> (startTime containerBundle, None))"

definition GetContainerMetrics ::
  "'f provider \<Rightarrow> string \<Rightarrow> 'f ContainerMetrics option \<times> error option" where
  "GetContainerMetrics mp containerID =
     (case containers mp containerID of
        None \<Rightarrow> (None, Some (Errorf ''container not found''))
      | Some containerBundle \<Rightarrow> (metrics containerBundle, None))"

definition GetContainerLimits ::
  "'f provider \<Rightarrow> string \<Rightarrow> 'f ContainerLimits option \<times> error option" where
  "GetContainerLimits mp containerID =
     (case containers mp containerID of
        None \<Rightarrow> (None, Some (Errorf ''container not found''))
      | Some containerBundle \<Rightarrow> (limits containerBundle, None))"

text \<open>
  \<open>GetNetworkMetrics\<close>: the slice of interface statistics (\<open>None\<close> is the nil slice), one
  entry for each interface of the bundle, named after the network when \<open>networks\<close> knows
  the interface.
\<close>

definition GetNetworkMetrics ::
  "'f provider \<Rightarrow> string \<Rightarrow> (string \<rightharpoonup> string) \<Rightarrow> InterfaceNetStats list option \<times> error option" where
  "GetNetworkMetrics mp containerID networks =
     (case containers mp containerID of
        None \<Rightarrow> (None, Some (Errorf ''container not found''))
      | Some containerBundle \<Rightarrow>
          (Some (map (\<lambda>(ifaceName, netStat).
                   \<lparr>NetworkName = (case networks ifaceName of Some nw \<Rightarrow> nw | None \<Rightarrow> ifaceName),
                    BytesRcvd = RxBytes netStat,
                    BytesSent = TxBytes netStat,
                    PacketsRcvd = RxPackets netStat,
                    PacketsSent = TxPackets netStat\<rparr>)
                 (networkMetrics containerBundle)),
           None))"

text \<open>
  \<open>GetAgentCID\<close>: the provider afterwards (a forced \<open>Prefetch\<close> changes it), the returned
  string and error, the log. The error of the forced \<open>Prefetch\<close> is dropped.
\<close>

definition GetAgentCID ::
  "'f host \<Rightarrow> 'f provider \<Rightarrow> 'f provider \<times> (string \<times> error option) \<times> log_line list" where
  "GetAgentCID h mp =
    (let (mp, logs) =
           (if agentCID mp = None then
              (let (mp', err, l) = Prefetch h mp
               in (mp', Infof ''AgentCID is empty, forcing a prefetch'' [] # l))
            else (mp, []))
     in (case agentCID mp of
           None \<Rightarrow> (mp, ('''', None), logs)
         | Some cid \<Rightarrow> (mp, (cid, None), logs)))"

definition GetPIDs :: "'f provider \<Rightarrow> string \<Rightarrow> int32 list option \<times> error option" where
  "GetPIDs mp containerID = (None, None)"

definition ContainerIDForPID :: "'f provider \<Rightarrow> go_int \<Rightarrow> string \<times> error option" where
  "ContainerIDForPID mp pid = ('''', Some (Errorf ''not supported on windows''))"

definition GetNumFileDescriptors :: "'f provider \<Rightarrow> go_int \<Rightarrow> go_int \<times> error option" where
  "GetNumFileDescriptors mp pid = (0, Some (Errorf ''not supported on windows''))"

subsection \<open>The containers a sequence of steps inspects\<close>


section \<open>Example inputs\<close>

text \<open>A configuration that answers the two keys the topology reads.\<close>

definition example_config :: "bool \<Rightarrow> go_int \<Rightarrow> config" where
  "example_config autoAdjust pipelineCount =
     \<lparr>GetBool = (\<lambda>key. key = ''dogstatsd_pipeline_autoadjust'' \<and> autoAdjust),
      GetInt = (\<lambda>key. if key = ''dogstatsd_pipeline_count'' then pipelineCount else 0)\<rparr>"

text \<open>
  A docker client with three containers (the inspection of \<open>a\<close> fails, the statistics of
  \<open>b\<close> fail, \<open>c\<close> runs the agent), a provider holding one bundle, and a host that does
  not round: its \<open>float64\<close> keeps the integer it is handed, where Go stores the nearest
  double (\<open>2^64\<close> for the \<open>2^64 - 2\<close> of the examples below).
\<close>

definition example_stats :: StatsJSON where
  "example_stats =
     \<lparr>CPUStats = \<lparr>CPUUsage = \<lparr>UsageInKernelmode = 300000, TotalUsage = 100000\<rparr>\<rparr>,
      MemoryStats = \<lparr>Stats_PrivateWorkingSet = 4096, Commit = 8192, CommitPeak = 16384\<rparr>,
      StorageStats = \<lparr>ReadSizeBytes = 10, WriteSizeBytes = 20\<rparr>,
      Networks = [(''eth0'', \<lparr>RxBytes = 1, TxBytes = 2, RxPackets = 3, TxPackets = 4\<rparr>)]\<rparr>"

definition example_docker :: DockerUtil where
  "example_docker =
     \<lparr>RawContainerList = Inr [\<lparr>ID = ''a''\<rparr>, \<lparr>ID = ''b''\<rparr>, \<lparr>ID = ''c''\<rparr>],
      Inspect = (\<lambda>containerID.
        if containerID = ''a'' then Inl (Errorf ''inspect failed'')
        else Inr \<lparr>JSON_ID = containerID,
                  State = \<lparr>StartedAt = ''2022-01-01T00:00:00Z'',
                            Pid = (if containerID = ''c'' then 42 else 7)\<rparr>,
                  HostConfig = \<lparr>NanoCPUs = 0, CPUPercent = 0, CPUCount = 2, Memory = 1024\<rparr>\<rparr>),
      GetContainerStats = (\<lambda>containerID.
        if containerID = ''b'' then (None, Some (Errorf ''stats failed''))
        else (Some example_stats, None))\<rparr>"

definition example_host :: "(error + DockerUtil) \<Rightarrow> int host" where
  "example_host docker =
     \<lparr>GetDockerUtil = docker, Getpid = 42, Getppid = 1, NumCPU = 4,
      time_Parse_Unix = (\<lambda>s. if s = ''2022-01-01T00:00:00Z'' then Inr 1640995200
                             else Inl (Errorf ''cannot parse'')),
      float64 = (\<lambda>k. k), fmul = (\<lambda>x y. x * y), fdiv = (\<lambda>x y. x div y),
      schedule = [1, 0], loopvar_per_iteration = True\<rparr>"

definition example_bundle :: "int containerBundle" where
  "example_bundle =
     \<lparr>metrics = None,
      networkMetrics = [(''eth0'', \<lparr>RxBytes = 1, TxBytes = 2, RxPackets = 3, TxPackets = 4\<rparr>)],
      limits = Some \<lparr>CPULimit = 200, MemLimit = 1024\<rparr>,
      startTime = 1640995200\<rparr>"

definition example_provider :: "int provider" where
  "example_provider = \<lparr>containers = [''x'' \<mapsto> example_bundle], agentCID = None\<rparr>"

definition example_networks :: "string \<rightharpoonup> string" where
  "example_networks = [''eth0'' \<mapsto> ''bridge'']"

section \<open>Facts about the machine integers\<close>

lemma sint_range64:
  fixes a :: go_int
  shows "- 9223372036854775808 \<le> sint a" "sint a < 9223372036854775808"
  using sint_ge [of a] sint_lt [of a] by simp_all

lemma sint_sub_in_range:
  fixes a b :: go_int
  assumes "- (2 ^ 63) \<le> sint a - sint b" "sint a - sint b < 2 ^ 63"
  shows "sint (a - b) = sint a - sint b"
  using assms by (simp add: sint_word_diff signed_take_bit_int_eq_self)

lemma sint_word_of_int64:
  "- 9223372036854775808 \<le> k \<Longrightarrow> k < 9223372036854775808 \<Longrightarrow> sint (word_of_int k :: go_int) = k"
  by (simp add: sint_sbintrunc' signed_take_bit_int_eq_self)

lemma sdiv_2_int: "(k::int) sdiv 2 = (if 0 \<le> k then k div 2 else - ((- k) div 2))"
  by (simp add: signed_divide_int_def sgn_if)

lemma sint_go_quot_2: "sint (go_quot v 2) = sint v sdiv 2"
proof -
  have "- (2 ^ 63) \<le> sint v sdiv 2" "sint v sdiv 2 < 2 ^ 63"
    using sint_range64 [of v] unfolding sdiv_2_int by (auto split: if_splits)
  then show ?thesis
    by (simp add: go_quot_def sint_word_of_int64)
qed

lemma sint_manual_workers:
  fixes v p :: go_int
  assumes "1 \<le> sint p" "- (2 ^ 63) \<le> sint v - 1 - sint p"
  shows "sint (v - 1 - p) = sint v - 1 - sint p"
proof -
  have r: "sint p < 9223372036854775808" "sint v < 9223372036854775808"
    by (rule sint_range64)+
  have "sint (v - 1) = sint v - 1"
    using assms r sint_sub_in_range [of v 1] by simp
  then show ?thesis
    using assms r sint_sub_in_range [of "v - 1" p] by simp
qed

section \<open>Facts about the goroutines of Prefetch\<close>














subsection \<open>One run of Prefetch\<close>







section \<open>The topology of the DogStatsD pipeline\<close>

text \<open>
  Claim C1. With auto-adjust off, for every vCPU count: the pipeline count is the
  configured \<open>dogstatsd_pipeline_count\<close> when that is positive and 1 otherwise; the
  worker count is \<open>vCPUs - 1 - pipelineCount\<close> in Go's arithmetic, raised to 2 when it is
  below 2; nothing is logged. Whenever the difference does not leave the range of \<open>int\<close>
  (as for every vCPU count that is not negative), the worker count read as an integer
  is the maximum of 2 and \<open>vCPUs - 1 - pipelineCount\<close>.
\<close>

theorem manual_mode_topology:
  assumes "\<not> GetBool cfg ''dogstatsd_pipeline_autoadjust''"
  shows "let configured = GetInt cfg ''dogstatsd_pipeline_count'';
             ((workerCount, pipelineCount), logs) = getDogStatsDWorkerAndPipelineCount cfg vCPUs
         in pipelineCount = (if 0 < sint configured then configured else 1)
          \<and> workerCount = (if sint (vCPUs - 1 - pipelineCount) < 2 then 2 else vCPUs - 1 - pipelineCount)
          \<and> logs = []
          \<and> (- (2 ^ 63) \<le> sint vCPUs - 1 - sint pipelineCount \<longrightarrow>
                sint workerCount = max 2 (sint vCPUs - 1 - sint pipelineCount))
          \<and> (0 \<le> sint vCPUs \<longrightarrow>
                sint workerCount = max 2 (sint vCPUs - 1 - sint pipelineCount))"
proof -
  define p where "p = (if sint (GetInt cfg ''dogstatsd_pipeline_count'') \<le> 0 then 1
                       else GetInt cfg ''dogstatsd_pipeline_count'')"
  define w where "w = (if sint (vCPUs - 1 - p) < 2 then 2 else vCPUs - 1 - p)"
  have r: "getDogStatsDWorkerAndPipelineCount cfg vCPUs = ((w, p), [])"
    using assms by (simp add: getDogStatsDWorkerAndPipelineCount_def Let_def p_def w_def)
  have p1: "1 \<le> sint p"
    by (simp add: p_def)
  have general: "sint w = max 2 (sint vCPUs - 1 - sint p)"
    if "- (2 ^ 63) \<le> sint vCPUs - 1 - sint p"
    using sint_manual_workers [OF p1 that] by (simp add: w_def)
  have "- (2 ^ 63) \<le> sint vCPUs - 1 - sint p" if "0 \<le> sint vCPUs"
    using that sint_range64(2) [of p] by simp
  then have nonneg: "sint w = max 2 (sint vCPUs - 1 - sint p)" if "0 \<le> sint vCPUs"
    using that general by blast
  have pe: "p = (if 0 < sint (GetInt cfg ''dogstatsd_pipeline_count'')
                 then GetInt cfg ''dogstatsd_pipeline_count'' else 1)"
    by (simp add: p_def)
  have we: "w = (if sint (vCPUs - 1 - p) < 2 then 2 else vCPUs - 1 - p)"
    by (rule w_def)
  show ?thesis
    unfolding Let_def r prod.case
    by (intro conjI impI; (rule pe we refl | erule general | erule nonneg))
qed

theorem manual_mode_topology_witness:
  "\<not> GetBool (example_config False 3) ''dogstatsd_pipeline_autoadjust''
   \<and> getDogStatsDWorkerAndPipelineCount (example_config False 3) 8 = ((4, 3), [])
   \<and> \<not> GetBool (example_config False 0) ''dogstatsd_pipeline_autoadjust''
   \<and> getDogStatsDWorkerAndPipelineCount (example_config False 0) 4 = ((2, 1), [])"
  using manual_mode_topology [of "example_config False 3" 8]
    manual_mode_topology [of "example_config False 0" 4]
  by (simp add: example_config_def getDogStatsDWorkerAndPipelineCount_def)

text \<open>
  Claim C2. With auto-adjust on, for every vCPU count: the worker count is the maximum
  of 2 and \<open>vCPUs / 2\<close> (Go's truncating division), the pipeline count is the maximum of
  1 and the worker count minus 1, the two counts are the same under every
  configuration that has auto-adjust on (so the configured pipeline count plays no
  part), and a configured pipeline count above 1 adds one warning and nothing else.
\<close>

theorem auto_mode_topology:
  assumes "GetBool cfg ''dogstatsd_pipeline_autoadjust''"
  shows "let ((workerCount, pipelineCount), logs) = getDogStatsDWorkerAndPipelineCount cfg vCPUs
         in sint workerCount = max 2 (sint vCPUs sdiv 2)
          \<and> sint pipelineCount = max 1 (sint workerCount - 1)
          \<and> (\<forall>cfg'. GetBool cfg' ''dogstatsd_pipeline_autoadjust'' \<longrightarrow>
                fst (getDogStatsDWorkerAndPipelineCount cfg' vCPUs) = (workerCount, pipelineCount))
          \<and> logs = (if 1 < sint (GetInt cfg ''dogstatsd_pipeline_count'')
                then [Warn ''DogStatsD pipeline count value ignored since 'dogstatsd_pipeline_autoadjust' is enabled.'']
                else [])"
proof -
  define w where "w = (if sint (go_quot vCPUs 2) < 2 then 2 else go_quot vCPUs 2)"
  have w: "sint w = max 2 (sint vCPUs sdiv 2)"
    by (simp add: w_def sint_go_quot_2)
  have "2 \<le> sint w"
    by (simp add: w)
  moreover have "sint w < 9223372036854775808"
    by (rule sint_range64)
  ultimately have p: "sint (w - 1) = sint w - 1"
    using sint_sub_in_range [of w 1] by simp
  show ?thesis
    using assms w p \<open>2 \<le> sint w\<close>
    by (simp add: getDogStatsDWorkerAndPipelineCount_def Let_def w_def [symmetric])
qed

theorem auto_mode_topology_witness:
  "GetBool (example_config True 5) ''dogstatsd_pipeline_autoadjust''
   \<and> getDogStatsDWorkerAndPipelineCount (example_config True 5) 8
       = ((4, 3), [Warn ''DogStatsD pipeline count value ignored since 'dogstatsd_pipeline_autoadjust' is enabled.''])
   \<and> getDogStatsDWorkerAndPipelineCount (example_config True 0) 2 = ((2, 1), [])"
  using auto_mode_topology [of "example_config True 5" 8]
  by (simp add: example_config_def getDogStatsDWorkerAndPipelineCount_def go_quot_def sdiv_2_int)

text \<open>
  Claim C3. For every vCPU count and every configuration, in both modes, the worker
  count is at least 2 and the pipeline count at least 1, so neither is zero; and the
  result is a function of the vCPU count and of the two configuration keys read: two
  configurations that agree on them give the same result.
\<close>

theorem topology_never_zero:
  "let ((workerCount, pipelineCount), logs) = getDogStatsDWorkerAndPipelineCount cfg vCPUs
   in 2 \<le> sint workerCount \<and> 1 \<le> sint pipelineCount \<and> workerCount \<noteq> 0 \<and> pipelineCount \<noteq> 0
    \<and> (\<forall>cfg'. GetBool cfg' ''dogstatsd_pipeline_autoadjust'' = GetBool cfg ''dogstatsd_pipeline_autoadjust''
            \<and> GetInt cfg' ''dogstatsd_pipeline_count'' = GetInt cfg ''dogstatsd_pipeline_count''
          \<longrightarrow> getDogStatsDWorkerAndPipelineCount cfg' vCPUs = getDogStatsDWorkerAndPipelineCount cfg vCPUs)"
proof -
  obtain w p l where r: "getDogStatsDWorkerAndPipelineCount cfg vCPUs = ((w, p), l)"
    by (metis surj_pair)
  have w: "2 \<le> sint w"
    using r by (auto simp: getDogStatsDWorkerAndPipelineCount_def Let_def split: if_splits)
  have p: "1 \<le> sint p"
    using r by (auto simp: getDogStatsDWorkerAndPipelineCount_def Let_def split: if_splits)
  have "w \<noteq> 0"
  proof
    assume "w = 0"
    with w show False by simp
  qed
  moreover have "p \<noteq> 0"
  proof
    assume "p = 0"
    with p show False by simp
  qed
  moreover have "getDogStatsDWorkerAndPipelineCount cfg' vCPUs = ((w, p), l)"
    if "GetBool cfg' ''dogstatsd_pipeline_autoadjust'' = GetBool cfg ''dogstatsd_pipeline_autoadjust''"
      and "GetInt cfg' ''dogstatsd_pipeline_count'' = GetInt cfg ''dogstatsd_pipeline_count''" for cfg'
    unfolding r [symmetric] using that by (simp add: getDogStatsDWorkerAndPipelineCount_def)
  ultimately show ?thesis
    using w p by (simp add: r)
qed

theorem topology_never_zero_witness:
  "getDogStatsDWorkerAndPipelineCount (example_config False 1) 1 = ((2, 1), [])
   \<and> getDogStatsDWorkerAndPipelineCount (example_config False 9223372036854775807) 1 = ((2, 9223372036854775807), [])
   \<and> getDogStatsDWorkerAndPipelineCount (example_config True 1) 1 = ((2, 1), [])
   \<and> (2::int) \<le> sint (2 :: go_int) \<and> (1::int) \<le> sint (1 :: go_int)"
  using topology_never_zero [of "example_config False 1" 1]
  by (simp add: example_config_def getDogStatsDWorkerAndPipelineCount_def go_quot_def sdiv_2_int)

section \<open>The pod check\<close>

text \<open>
  Claim C6. For every check, configuration and group id, \<open>PodCheck.Run\<close> returns: its
  result is the nil slice together with the error \<open>Not implemented\<close>.
\<close>

theorem Run_not_implemented:
  "Run c cfg groupID = (None, Some (Errorf ''Not implemented''))"
  by (simp add: Run_def)

theorem Run_not_implemented_witness:
  "(Run \<lparr>sysInfo = (None :: unit option)\<rparr> () 0 :: unit list option \<times> error option)
     = (None, Some (Errorf ''Not implemented''))"
  by (rule Run_not_implemented)

section \<open>The iterable sinks\<close>

text \<open>
  Claim C7. \<open>createIterableMetrics\<close> returns a series sink exactly when
  \<open>AreSeriesEnabled\<close> holds and a sketches sink exactly when \<open>AreSketchesEnabled\<close> holds,
  and it calls the constructor of a sink exactly when the capability is enabled: for a
  disabled capability the returned pointer is nil and no sink is made.
\<close>

theorem createIterableMetrics_gated:
  "let ((series, sketches), calls) =
         createIterableMetrics flushAndSerializeInParallel serializer logPayloads isServerless
   in (series \<noteq> None) = AreSeriesEnabled serializer
    \<and> (sketches \<noteq> None) = AreSketchesEnabled serializer
    \<and> (CalledNewIterableSeries \<in> set calls) = AreSeriesEnabled serializer
    \<and> (CalledNewIterableSketches \<in> set calls) = AreSketchesEnabled serializer"
  by (simp add: createIterableMetrics_def)

theorem createIterableMetrics_gated_witness:
  "fst (createIterableMetrics \<lparr>BufferSize = 4000, ChannelSize = 200\<rparr>
         \<lparr>AreSeriesEnabled = False, AreSketchesEnabled = False\<rparr> True False
         :: (nat IterableSink option \<times> nat IterableSink option) \<times> constructor_call list)
     = (None, None)
   \<and> snd (createIterableMetrics \<lparr>BufferSize = 4000, ChannelSize = 200\<rparr>
         \<lparr>AreSeriesEnabled = True, AreSketchesEnabled = False\<rparr> True False
         :: (nat IterableSink option \<times> nat IterableSink option) \<times> constructor_call list)
     = [CalledNewIterableSeries]"
  using createIterableMetrics_gated [of "\<lparr>BufferSize = 4000, ChannelSize = 200\<rparr>"
      "\<lparr>AreSeriesEnabled = False, AreSketchesEnabled = False\<rparr>" True False,
      where ?'a = nat and ?'b = nat]
  by (simp add: createIterableMetrics_def)

section \<open>The Windows container provider\<close>

text \<open>
  Claim C4, as the code has it. For a container id that the provider's map does not
  hold, \<open>ContainerExists\<close> is false and each of \<open>GetContainerStartTime\<close>,
  \<open>GetContainerMetrics\<close>, \<open>GetContainerLimits\<close> and \<open>GetNetworkMetrics\<close> returns the zero
  value of its result together with the error that \<open>fmt.Errorf\<close> makes from
  \<open>container not found\<close>: an error known by its message, which is not a typed "not
  found" error and is of the same kind as the error of \<open>ContainerIDForPID\<close>. For an id
  that the map holds, \<open>ContainerExists\<close> is true and the accessors return, with a nil
  error, the start time, the metrics and the limits stored in the bundle, and one
  interface entry for each stored network counter set, with the stored counters and the
  name of the network (of the interface when the network is not known).
\<close>

theorem accessors_lookup:
  "(containers mp containerID = None \<longrightarrow>
      \<not> ContainerExists mp containerID
    \<and> GetContainerStartTime mp containerID = (0, Some (Errorf ''container not found''))
    \<and> GetContainerMetrics mp containerID = (None, Some (Errorf ''container not found''))
    \<and> GetContainerLimits mp containerID = (None, Some (Errorf ''container not found''))
    \<and> GetNetworkMetrics mp containerID networks = (None, Some (Errorf ''container not found''))
    \<and> \<not> IsNotFound (snd (GetContainerStartTime mp containerID))
    \<and> \<not> IsNotFound (snd (GetContainerMetrics mp containerID))
    \<and> \<not> IsNotFound (snd (GetContainerLimits mp containerID))
    \<and> \<not> IsNotFound (snd (GetNetworkMetrics mp containerID networks))
    \<and> IsNotFound (snd (GetContainerMetrics mp containerID))
        = IsNotFound (snd (ContainerIDForPID mp pid)))
   \<and> (\<forall>b. containers mp containerID = Some b \<longrightarrow>
      ContainerExists mp containerID
    \<and> GetContainerStartTime mp containerID = (startTime b, None)
    \<and> GetContainerMetrics mp containerID = (metrics b, None)
    \<and> GetContainerLimits mp containerID = (limits b, None)
    \<and> (\<exists>netStats. GetNetworkMetrics mp containerID networks = (Some netStats, None)
          \<and> map NetworkName netStats
              = map (\<lambda>(ifaceName, netStat). case networks ifaceName of Some nw \<Rightarrow> nw | None \<Rightarrow> ifaceName)
                  (networkMetrics b)
          \<and> map (\<lambda>s. (BytesRcvd s, BytesSent s, PacketsRcvd s, PacketsSent s)) netStats
              = map (\<lambda>(ifaceName, netStat). (RxBytes netStat, TxBytes netStat, RxPackets netStat, TxPackets netStat))
                  (networkMetrics b)))"
  by (auto simp: ContainerExists_def GetContainerStartTime_def GetContainerMetrics_def
      GetContainerLimits_def GetNetworkMetrics_def ContainerIDForPID_def)

theorem accessors_lookup_witness:
  "containers example_provider ''y'' = None
   \<and> \<not> ContainerExists example_provider ''y''
   \<and> GetContainerMetrics example_provider ''y'' = (None, Some (Errorf ''container not found''))
   \<and> GetNetworkMetrics example_provider ''y'' Map.empty = (None, Some (Errorf ''container not found''))
   \<and> containers example_provider ''x'' = Some example_bundle
   \<and> ContainerExists example_provider ''x''
   \<and> GetContainerStartTime example_provider ''x'' = (1640995200, None)
   \<and> GetContainerLimits example_provider ''x'' = (Some \<lparr>CPULimit = 200, MemLimit = 1024\<rparr>, None)
   \<and> GetNetworkMetrics example_provider ''x'' [''eth0'' \<mapsto> ''bridge'']
       = (Some [\<lparr>NetworkName = ''bridge'', BytesRcvd = 1, BytesSent = 2,
                  PacketsRcvd = 3, PacketsSent = 4\<rparr>], None)"
  using accessors_lookup [of example_provider "''y''" Map.empty]
    accessors_lookup [of example_provider "''x''" "[''eth0'' \<mapsto> ''bridge'']"]
  by (simp add: example_provider_def example_bundle_def ContainerExists_def
      GetContainerStartTime_def GetContainerLimits_def GetNetworkMetrics_def)

text \<open>
  The claim as the spec words it, with a typed "not found" error, fails: for the id
  \<open>y\<close>, which the example provider does not hold, none of the four accessors returns an
  error that \<open>IsNotFound\<close> recognises.
\<close>

theorem accessors_lookup_counterexample:
  "containers example_provider ''y'' = None
   \<and> \<not> IsNotFound (snd (GetContainerStartTime example_provider ''y''))
   \<and> \<not> IsNotFound (snd (GetContainerMetrics example_provider ''y''))
   \<and> \<not> IsNotFound (snd (GetContainerLimits example_provider ''y''))
   \<and> \<not> IsNotFound (snd (GetNetworkMetrics example_provider ''y'' example_networks))"
  by (simp add: example_provider_def GetContainerStartTime_def GetContainerMetrics_def
      GetContainerLimits_def GetNetworkMetrics_def)



text \<open>
  The same run, evaluated: the inspection of \<open>a\<close> fails and its statistics are kept, the
  statistics of \<open>b\<close> fail and its limits and start time are kept, \<open>c\<close> is found to run
  the agent, and no entry is made for an id that was not listed.
\<close>

lemma Prefetch_example_agentCID:
  "agentCID (fst (Prefetch (example_host (Inr example_docker)) \<lparr>containers = Map.empty, agentCID = None\<rparr>)) = Some ''c''"
  by code_simp

lemma Prefetch_example_containers:
  "map (containers (fst (Prefetch (example_host (Inr example_docker))
          \<lparr>containers = Map.empty, agentCID = None\<rparr>))) [''a'', ''b'', ''d'']
   = [Some \<lparr>metrics = Some
              \<lparr>CPU = Some \<lparr>User = 18446744073709551614, System = 3, UsageTotal = 1\<rparr>,
               Memory_stats = Some \<lparr>RSS = 4096, PrivateWorkingSet = 4096,
                                    CommitBytes = 8192, CommitPeakBytes = 16384\<rparr>,
               IO = Some \<lparr>ReadBytes = 10, WriteBytes = 20\<rparr>\<rparr>,
            networkMetrics = [(''eth0'', \<lparr>RxBytes = 1, TxBytes = 2, RxPackets = 3, TxPackets = 4\<rparr>)],
            limits = None, startTime = 0\<rparr>,
      Some \<lparr>metrics = None, networkMetrics = [],
            limits = Some \<lparr>CPULimit = 200, MemLimit = 1024\<rparr>, startTime = 1640995200\<rparr>,
      None]"
  by code_simp

lemma Prefetch_example_logs:
  "length (snd (snd (Prefetch (example_host (Inr example_docker))
          \<lparr>containers = Map.empty, agentCID = None\<rparr>))) = 11"
  by code_simp

text \<open>
  Claim C8. In \<open>fillContainerMetrics\<close> the user CPU time stored is always
  \<open>total - kernel\<close> computed on \<open>uint64\<close>: the branch \<open>user < 0\<close> is never taken. When
  \<open>UsageInKernelmode / 1e5\<close> exceeds \<open>TotalUsage / 1e5\<close>, that value is the difference plus
  \<open>2^64\<close>, a positive number, not 0.
\<close>

theorem fillContainerMetrics_user_wraps:
  "let kernel = UsageInKernelmode (CPUUsage (CPUStats stats)) div 100000;
       total = TotalUsage (CPUUsage (CPUStats stats)) div 100000;
       cpu = Option.bind (metrics (fillContainerMetrics h stats containerBundle)) CPU
   in map_option User cpu = Some (float64 h (uint (total - kernel)))
    \<and> (total < kernel \<longrightarrow>
          uint (total - kernel) = 2 ^ 64 + uint total - uint kernel
        \<and> 0 < uint (total - kernel)
        \<and> map_option User cpu = Some (float64 h (2 ^ 64 + uint total - uint kernel)))"
proof -
  define kernel where "kernel = UsageInKernelmode (CPUUsage (CPUStats stats)) div 100000"
  define total where "total = TotalUsage (CPUUsage (CPUStats stats)) div 100000"
  have user: "map_option User (Option.bind (metrics (fillContainerMetrics h stats containerBundle)) CPU)
      = Some (float64 h (uint (total - kernel)))"
    by (simp add: fillContainerMetrics_def Let_def kernel_def total_def)
  have wrap: "uint (total - kernel) = 2 ^ 64 + uint total - uint kernel" if "total < kernel"
  proof -
    have less: "uint total < uint kernel"
      using that by (simp add: word_less_def)
    have bounds: "uint kernel < 2 ^ 64" "0 \<le> uint total"
      using uint_lt2p [of kernel] by simp_all
    define d where "d = uint total - uint kernel + 2 ^ 64"
    have "0 \<le> d" "d < 2 ^ 64"
      unfolding d_def using less bounds by linarith+
    then have "d mod 2 ^ 64 = d"
      by (rule mod_pos_pos_trivial)
    moreover have "d mod 2 ^ 64 = (uint total - uint kernel) mod 2 ^ 64"
      by (simp add: d_def)
    moreover have "uint (total - kernel) = (uint total - uint kernel) mod 2 ^ 64"
      by (simp add: uint_word_ariths)
    ultimately show ?thesis
      by (simp add: d_def)
  qed
  have k: "uint kernel < 2 ^ 64"
    using uint_lt2p [of kernel] by simp
  have pos: "0 < uint (total - kernel)" if "total < kernel"
    using wrap [OF that] k uint_ge_0 [of total] by linarith
  have user': "map_option User (Option.bind (metrics (fillContainerMetrics h stats containerBundle)) CPU)
      = Some (float64 h (2 ^ 64 + uint total - uint kernel))" if "total < kernel"
    unfolding user wrap [OF that] ..
  show ?thesis
    unfolding Let_def kernel_def [symmetric] total_def [symmetric]
    using user wrap pos user' by blast
qed

theorem fillContainerMetrics_user_wraps_witness:
  "TotalUsage (CPUUsage (CPUStats example_stats)) div 100000
     < UsageInKernelmode (CPUUsage (CPUStats example_stats)) div 100000
   \<and> map_option User (Option.bind
        (metrics (fillContainerMetrics (example_host (Inl (Errorf ''none''))) example_stats zero_containerBundle)) CPU)
     = Some 18446744073709551614"
  using fillContainerMetrics_user_wraps
    [of example_stats "example_host (Inl (Errorf ''none''))" zero_containerBundle]
  by (simp add: example_stats_def example_host_def)

text \<open>
  Claim C9. \<open>GetAgentCID\<close> returns a nil error in every state of the provider. When the
  agent's container id is unknown before the call and still unknown after the forced
  \<open>Prefetch\<close>, it returns the empty string with a nil error; otherwise it returns the id.
\<close>

theorem GetAgentCID_never_fails:
  "snd (fst (snd (GetAgentCID h mp))) = None
   \<and> (agentCID mp = None \<and> agentCID (fst (Prefetch h mp)) = None \<longrightarrow>
        fst (snd (GetAgentCID h mp)) = ('''', None))
   \<and> (\<forall>cid. agentCID mp = None \<and> agentCID (fst (Prefetch h mp)) = Some cid \<longrightarrow>
        fst (snd (GetAgentCID h mp)) = (cid, None))
   \<and> (\<forall>cid. agentCID mp = Some cid \<longrightarrow> GetAgentCID h mp = (mp, (cid, None), []))"
  by (auto simp: GetAgentCID_def Let_def split: prod.splits option.splits)

theorem GetAgentCID_never_fails_witness:
  "agentCID \<lparr>containers = Map.empty, agentCID = None\<rparr> = None
   \<and> agentCID (fst (Prefetch (example_host (Inl (Errorf ''docker unavailable'')))
        \<lparr>containers = Map.empty, agentCID = None\<rparr>)) = None
   \<and> fst (snd (GetAgentCID (example_host (Inl (Errorf ''docker unavailable'')))
        \<lparr>containers = Map.empty, agentCID = None\<rparr>)) = ('''', None)"
  using GetAgentCID_never_fails [of "example_host (Inl (Errorf ''docker unavailable''))"
      "\<lparr>containers = Map.empty, agentCID = None\<rparr>"]
  by (simp add: Prefetch_def example_host_def)

text \<open>
  Claim C10. For every container id \<open>GetPIDs\<close> returns the nil slice together with a nil
  error; for every pid \<open>ContainerIDForPID\<close> returns the empty string together with the
  error \<open>not supported on windows\<close>.
\<close>

theorem GetPIDs_and_ContainerIDForPID:
  "GetPIDs mp containerID = (None, None)
   \<and> ContainerIDForPID mp pid = ('''', Some (Errorf ''not supported on windows''))"
  by (simp add: GetPIDs_def ContainerIDForPID_def)

theorem GetPIDs_and_ContainerIDForPID_witness:
  "GetPIDs example_provider ''x'' = (None, None)
   \<and> ContainerIDForPID example_provider 4 = ('''', Some (Errorf ''not supported on windows''))"
  using GetPIDs_and_ContainerIDForPID [of example_provider "''x''" 4]
  by simp

end
